theory Spec2Isabelle
  imports Complex_Main
begin

section \<open>Python floats\<close>

text \<open>
  A Python \<^verbatim>\<open>float\<close> (and a numpy \<^verbatim>\<open>float64\<close>) is an IEEE binary64 value: a finite
  number, one of the two infinities, or NaN. The finite values are modelled by the real
  number they denote. Comparison is modelled exactly (IEEE comparison of two finite
  values is comparison of the reals they denote; every ordered comparison with NaN is
  false). Arithmetic is modelled without rounding: the sum and the quotient of finite
  values are the exact real results. Signed zeros are not distinguished.
\<close>

datatype pyfloat = Fin real | PInf | NInf | NaN

text \<open>\<^verbatim>\<open>a > b\<close> on floats.\<close>

fun pf_gt :: "pyfloat \<Rightarrow> pyfloat \<Rightarrow> bool" where
  "pf_gt NaN _ = False"
| "pf_gt _ NaN = False"
| "pf_gt (Fin a) (Fin b) = (a > b)"
| "pf_gt (Fin a) PInf = False"
| "pf_gt (Fin a) NInf = True"
| "pf_gt PInf (Fin b) = True"
| "pf_gt PInf PInf = False"
| "pf_gt PInf NInf = True"
| "pf_gt NInf _ = False"

text \<open>\<^verbatim>\<open>a < b\<close> on floats.\<close>

fun pf_lt :: "pyfloat \<Rightarrow> pyfloat \<Rightarrow> bool" where
  "pf_lt NaN _ = False"
| "pf_lt _ NaN = False"
| "pf_lt (Fin a) (Fin b) = (a < b)"
| "pf_lt (Fin a) PInf = True"
| "pf_lt (Fin a) NInf = False"
| "pf_lt NInf (Fin b) = True"
| "pf_lt NInf NInf = False"
| "pf_lt NInf PInf = True"
| "pf_lt PInf _ = False"

text \<open>Unary minus \<^verbatim>\<open>-a\<close>.\<close>

fun pf_neg :: "pyfloat \<Rightarrow> pyfloat" where
  "pf_neg (Fin a) = Fin (- a)"
| "pf_neg PInf = NInf"
| "pf_neg NInf = PInf"
| "pf_neg NaN = NaN"

text \<open>\<^verbatim>\<open>a + b\<close>: NaN is absorbing and the sum of opposite infinities is NaN.\<close>

fun pf_add :: "pyfloat \<Rightarrow> pyfloat \<Rightarrow> pyfloat" where
  "pf_add NaN _ = NaN"
| "pf_add _ NaN = NaN"
| "pf_add (Fin a) (Fin b) = Fin (a + b)"
| "pf_add (Fin a) PInf = PInf"
| "pf_add (Fin a) NInf = NInf"
| "pf_add PInf NInf = NaN"
| "pf_add PInf _ = PInf"
| "pf_add NInf PInf = NaN"
| "pf_add NInf _ = NInf"

text \<open>
  Division of a float by an element count, as numpy's mean does it: a count of zero
  divides by zero, which in numpy is a warning and not an exception, and gives NaN for
  \<^verbatim>\<open>0.0 / 0\<close> and an infinity for a non-zero dividend.
\<close>

fun pf_div_count :: "pyfloat \<Rightarrow> nat \<Rightarrow> pyfloat" where
  "pf_div_count NaN n = NaN"
| "pf_div_count PInf n = PInf"
| "pf_div_count NInf n = NInf"
| "pf_div_count (Fin a) n =
     (if n = 0 then (if a = 0 then NaN else if a > 0 then PInf else NInf)
      else Fin (a / real n))"

text \<open>
  The value of a decimal literal of the source is the binary64 nearest to it. The
  literals of the decision rule and of the documented scenarios follow; \<^verbatim>\<open>0.3\<close> is
  \<open>5404319552844595 / 2 ^ 54\<close>, just below three tenths.
\<close>

definition lit_0_3 :: real where
  "lit_0_3 = 5404319552844595 / 2 ^ 54"

definition lit_0_31 :: real where
  "lit_0_31 = 5584463537939415 / 2 ^ 54"

definition lit_0_9 :: real where
  "lit_0_9 = 8106479329266893 / 2 ^ 53"

definition lit_0_45 :: real where
  "lit_0_45 = 8106479329266893 / 2 ^ 54"

text \<open>
  The finite binary64 values: an integer significand of less than 53 bits times a power
  of two between \<open>2 ^ -1074\<close> and \<open>2 ^ 971\<close>.
\<close>

definition is_binary64 :: "real \<Rightarrow> bool" where
  "is_binary64 x = (\<exists>(m::int) (e::nat). \<bar>m\<bar> < 2 ^ 53 \<and> e \<le> 2045 \<and> x = of_int m * 2 ^ e / 2 ^ 1074)"

text \<open>The floats: the finite binary64 values, the infinities and NaN.\<close>

fun is_float :: "pyfloat \<Rightarrow> bool" where
  "is_float (Fin x) = is_binary64 x"
| "is_float _ = True"

section \<open>Python values\<close>

text \<open>
  The values a parsed JSON document is made of. A dictionary is the list of its items;
  a key is looked up with \<open>map_of\<close>.
\<close>

datatype pyval =
    PyNone
  | PyBool bool
  | PyInt int
  | PyFloat pyfloat
  | PyStr string
  | PyList "pyval list"
  | PyDict "(string \<times> pyval) list"

text \<open>The exceptions of the model; each is a subclass of \<^verbatim>\<open>Exception\<close>.\<close>

datatype py_error =
    RequestException
  | JSONDecodeError
  | KeyError string
  | TypeError
  | OtherException string

section \<open>The decision rule\<close>

text \<open>
  \<^verbatim>\<open>make_decision(avg_sentiment, current_price)\<close>: the three strings are returned as
  the source spells them; \<^verbatim>\<open>-0.3\<close> is the negation of the literal \<^verbatim>\<open>0.3\<close>.
\<close>

definition make_decision :: "pyfloat \<Rightarrow> pyval \<Rightarrow> string" where
  "make_decision avg_sentiment current_price =
     (if pf_gt avg_sentiment (Fin lit_0_3) then ''BUY''
      else if pf_lt avg_sentiment (pf_neg (Fin lit_0_3)) then ''SELL''
      else ''HOLD'')"

text \<open>
  The decision rule as the specification words it, with the thresholds read as the
  decimal numbers three tenths and minus three tenths.
\<close>

definition decision_rule_spec :: "pyfloat \<Rightarrow> string" where
  "decision_rule_spec sentiment =
     (if pf_gt sentiment (Fin (3 / 10)) then ''BUY''
      else if pf_lt sentiment (Fin (- (3 / 10))) then ''SELL''
      else ''HOLD'')"

section \<open>The price fetcher\<close>

text \<open>
  What the process prints, one value per \<^verbatim>\<open>print\<close>: a constant text, or the template
  of a formatted line with the value it formats.
\<close>

datatype out_line =
    Text string
  | Error_fetching py_error
  | Current_price pyval
  | Headline string
  | Average_sentiment pyfloat
  | Final_recommendation string

text \<open>
  The HTTP response as far as the fetcher reads it: what \<^verbatim>\<open>response.json()\<close> does,
  which is to raise when the body is not JSON and to return the parsed document
  otherwise.
\<close>

datatype response = Response (json: "py_error + pyval")

text \<open>
  \<^verbatim>\<open>obj[key]\<close> for a string key: a dictionary raises \<^verbatim>\<open>KeyError\<close> on a missing key, and
  every other value raises \<^verbatim>\<open>TypeError\<close> (a list or a string wants an integer index,
  the others are not subscriptable).
\<close>

fun getitem :: "pyval \<Rightarrow> string \<Rightarrow> py_error + pyval" where
  "getitem (PyDict items) key =
     (case map_of items key of None \<Rightarrow> Inl (KeyError key) | Some v \<Rightarrow> Inr v)"
| "getitem _ key = Inl TypeError"

text \<open>
  The body of the \<^verbatim>\<open>try\<close> block of \<^verbatim>\<open>fetch_ada_price\<close>. Its argument is the outcome of
  \<^verbatim>\<open>requests.get(url, params=params)\<close>: an exception or a response.
\<close>

definition fetch_ada_price_try :: "py_error + response \<Rightarrow> py_error + pyval" where
  "fetch_ada_price_try requests_get =
     (case requests_get of
        Inl e \<Rightarrow> Inl e
      | Inr response \<Rightarrow>
          (case json response of
             Inl e \<Rightarrow> Inl e
           | Inr data \<Rightarrow>
               (case getitem data ''cardano'' of
                  Inl e \<Rightarrow> Inl e
                | Inr cardano \<Rightarrow> getitem cardano ''usd'')))"

text \<open>
  \<^verbatim>\<open>fetch_ada_price()\<close>: the value returned and the lines printed. The handler
  \<^verbatim>\<open>except Exception\<close> catches every exception of the block, prints it and returns
  \<^verbatim>\<open>None\<close>.
\<close>

definition fetch_ada_price :: "py_error + response \<Rightarrow> pyval \<times> out_line list" where
  "fetch_ada_price requests_get =
     (case fetch_ada_price_try requests_get of
        Inr current_price \<Rightarrow> (current_price, [])
      | Inl e \<Rightarrow> (PyNone, [Error_fetching e]))"

text \<open>
  The value at \<^verbatim>\<open>data["cardano"]["usd"]\<close> of the response, when the request returned a
  JSON object that has it.
\<close>

fun quoted_price :: "py_error + response \<Rightarrow> pyval option" where
  "quoted_price (Inr (Response (Inr (PyDict items)))) =
     (case map_of items ''cardano'' of
        Some (PyDict inner) \<Rightarrow> map_of inner ''usd''
      | _ \<Rightarrow> None)"
| "quoted_price _ = None"

text \<open>The contract the specification gives the fetcher: a positive float or \<^verbatim>\<open>None\<close>.\<close>

fun positive_float_or_failure :: "pyval \<Rightarrow> bool" where
  "positive_float_or_failure PyNone = True"
| "positive_float_or_failure (PyFloat x) = pf_gt x (Fin 0)"
| "positive_float_or_failure _ = False"

section \<open>The headline source\<close>

definition fetch_news_headlines :: "string list" where
  "fetch_news_headlines =
     [''Cardano Surges After Positive Development Updates'',
      ''Experts Warn Of Possible Correction in Cardano'',
      ''Major Financial Institution to Begin Holding ADA Reserves'',
      ''Bearish Signals Emerge Despite Cardano's Strong Performance'',
      ''Investors Show Growing Interest in Cardano's Future'']"

section \<open>The sentiment scorer\<close>

text \<open>
  The first element of what the pipeline returns for a text: a label and a score. The
  pipeline is an external capability and may raise.
\<close>

record classifier_result =
  label :: string
  score :: pyfloat

type_synonym classifier = "string \<Rightarrow> py_error + classifier_result"

text \<open>The signed scalar of one headline: the \<^verbatim>\<open>if\<close> of the loop body.\<close>

definition numeric_score :: "classifier_result \<Rightarrow> pyfloat" where
  "numeric_score result =
     (if label result = ''POSITIVE'' then score result else pf_neg (score result))"

text \<open>
  The loop over the headlines, appending to \<^verbatim>\<open>scores\<close>; an exception of the pipeline
  leaves the loop.
\<close>

fun score_loop :: "classifier \<Rightarrow> string list \<Rightarrow> pyfloat list \<Rightarrow> py_error + pyfloat list" where
  "score_loop sentiment_pipeline [] scores = Inr scores"
| "score_loop sentiment_pipeline (headline # rest) scores =
     (case sentiment_pipeline headline of
        Inl e \<Rightarrow> Inl e
      | Inr result \<Rightarrow> score_loop sentiment_pipeline rest (scores @ [numeric_score result]))"

text \<open>
  \<^verbatim>\<open>np.mean\<close> of a list of floats: the sum of the elements, from \<^verbatim>\<open>0.0\<close>, divided by
  their number. On the empty list numpy warns and returns NaN.
\<close>

definition np_mean :: "pyfloat list \<Rightarrow> pyfloat" where
  "np_mean scores = pf_div_count (foldl pf_add (Fin 0) scores) (length scores)"

text \<open>
  \<^verbatim>\<open>analyze_sentiment(headlines)\<close>. The first argument is the outcome of building the
  pipeline: an exception or the classifier.
\<close>

definition analyze_sentiment :: "py_error + classifier \<Rightarrow> string list \<Rightarrow> py_error + pyfloat" where
  "analyze_sentiment pipeline headlines =
     (case pipeline of
        Inl e \<Rightarrow> Inl e
      | Inr sentiment_pipeline \<Rightarrow>
          (case score_loop sentiment_pipeline headlines [] of
             Inl e \<Rightarrow> Inl e
           | Inr scores \<Rightarrow> Inr (np_mean scores)))"


section \<open>The driver\<close>

datatype call =
    Call_fetch_ada_price
  | Call_fetch_news_headlines
  | Call_analyze_sentiment
  | Call_make_decision

text \<open>
  A run of the driver: what it printed, the functions it called, in order, the
  decision it reached if any, and the exception that ended it if any.
\<close>

record run =
  stdout :: "out_line list"
  calls :: "call list"
  decided :: "string option"
  raised :: "py_error option"

text \<open>Printing lines, and entering a call in the trace.\<close>

definition print :: "out_line list \<Rightarrow> run \<Rightarrow> run" where
  "print ls r = r\<lparr>stdout := stdout r @ ls\<rparr>"

definition enter :: "call \<Rightarrow> run \<Rightarrow> run" where
  "enter c r = r\<lparr>calls := calls r @ [c]\<rparr>"

text \<open>
  \<^verbatim>\<open>run_agentic_ai()\<close>. Its arguments are what the outside gives the run: the outcome of
  the HTTP request and the outcome of building the pipeline. The early \<^verbatim>\<open>return\<close> on a
  price of \<^verbatim>\<open>None\<close> is the first branch; an exception of the scorer is not caught and
  ends the run.
\<close>

definition run_agentic_ai :: "py_error + response \<Rightarrow> py_error + classifier \<Rightarrow> run" where
  "run_agentic_ai requests_get pipeline =
     (let r0 = \<lparr>stdout = [], calls = [], decided = None, raised = None\<rparr>;
          r1 = print [Text ''=== Fetching ADA Price ===''] r0;
          (price, printed) = fetch_ada_price requests_get;
          r2 = print printed (enter Call_fetch_ada_price r1)
      in if price = PyNone then print [Text ''Could not fetch price. Exiting.''] r2
         else
           (let r3 = print [Current_price price] r2;
                r4 = print [Text (CHR 0x0A # ''=== Fetching News Headlines ==='')] r3;
                headlines = fetch_news_headlines;
                r5 = print (map Headline headlines) (enter Call_fetch_news_headlines r4);
                r6 = print [Text (CHR 0x0A # ''=== Analyzing Sentiment ==='')] r5
            in case analyze_sentiment pipeline headlines of
                 Inl e \<Rightarrow> (enter Call_analyze_sentiment r6)\<lparr>raised := Some e\<rparr>
               | Inr avg_sentiment \<Rightarrow>
                   (let r7 = print [Average_sentiment avg_sentiment] (enter Call_analyze_sentiment r6);
                        r8 = print [Text (CHR 0x0A # ''=== Making Decision ==='')] r7;
                        decision = make_decision avg_sentiment price;
                        r9 = (enter Call_make_decision r8)\<lparr>decided := Some decision\<rparr>
                    in print [Final_recommendation decision] r9)))"

section \<open>Inputs of the scenarios\<close>


definition always_positive :: classifier where
  "always_positive headline = Inr \<lparr>label = ''POSITIVE'', score = Fin lit_0_9\<rparr>"

definition quote_response :: "pyval \<Rightarrow> py_error + response" where
  "quote_response v = Inr (Response (Inr (PyDict [(''cardano'', PyDict [(''usd'', v)])])))"

section \<open>The thresholds on binary64 values\<close>

text \<open>
  No binary64 value lies between the literal \<^verbatim>\<open>0.3\<close> and three tenths: the values of
  that binade are the multiples of \<open>2 ^ -54\<close>, and the next one above the literal is
  already above three tenths. So on floats the comparison with the literal is the
  comparison with the decimal number.
\<close>

lemma binary64_above_lit_0_3:
  assumes "is_binary64 x" and "lit_0_3 < x"
  shows "3 / 10 < x"
proof -
  from assms(1) obtain m :: int and e :: nat
    where m: "\<bar>m\<bar> < 2 ^ 53" and e: "e \<le> 2045" and x: "x = of_int m * 2 ^ e / 2 ^ 1074"
    unfolding is_binary64_def by blast
  show ?thesis
  proof (cases "1020 \<le> e")
    case True
    define k :: int where "k = m * 2 ^ (e - 1020)"
    have p1: "(2::real) ^ e = 2 ^ (e - 1020) * 2 ^ 1020"
      using True power_add [of "2::real" "e - 1020" 1020] by simp
    have p2: "(2::real) ^ 1074 = 2 ^ 54 * 2 ^ 1020"
      by simp
    have xk: "x = of_int k / 2 ^ 54"
      unfolding x k_def p1 p2 by simp
    from assms(2) have "(5404319552844595::real) < of_int k"
      unfolding xk lit_0_3_def by (simp add: divide_less_cancel)
    then have "5404319552844595 < k" by linarith
    then have "5404319552844596 \<le> k" by simp
    then have "(5404319552844596::real) \<le> of_int k" by linarith
    then have "5404319552844596 / 2 ^ 54 \<le> x"
      unfolding xk by (simp add: divide_le_cancel)
    moreover have "(3::real) / 10 < 5404319552844596 / 2 ^ 54" by simp
    ultimately show ?thesis by linarith
  next
    case False
    then have "e \<le> 1019" by simp
    then have "(2::real) ^ e \<le> 2 ^ 1019" by (intro power_increasing) simp_all
    then have B: "(2::real) ^ 53 * 2 ^ e \<le> 2 ^ 53 * 2 ^ 1019"
      by (intro mult_left_mono) simp_all
    from m have "m < 9007199254740992" by simp
    then have "real_of_int m \<le> 9007199254740992" by linarith
    then have "real_of_int m \<le> 2 ^ 53" by simp
    then have "real_of_int m * 2 ^ e \<le> 2 ^ 53 * 2 ^ e"
      by (intro mult_right_mono) simp_all
    with B have "real_of_int m * 2 ^ e \<le> 2 ^ 53 * 2 ^ 1019" by linarith
    then have "x \<le> 2 ^ 53 * 2 ^ 1019 / 2 ^ 1074"
      unfolding x by (simp add: divide_le_cancel)
    also have "\<dots> = (1::real) / 4" by simp
    finally have "x \<le> 1 / 4" .
    with assms(2) show ?thesis by (simp add: lit_0_3_def)
  qed
qed

lemma is_binary64_uminus: "is_binary64 (- x) = is_binary64 x"
proof -
  have "is_binary64 (- y)" if "is_binary64 y" for y
  proof -
    from that obtain m :: int and e :: nat
      where "\<bar>m\<bar> < 2 ^ 53" "e \<le> 2045" "y = of_int m * 2 ^ e / 2 ^ 1074"
      unfolding is_binary64_def by blast
    then have "\<bar>- m\<bar> < 2 ^ 53 \<and> e \<le> 2045 \<and> - y = of_int (- m) * 2 ^ e / 2 ^ 1074"
      by simp
    then show ?thesis unfolding is_binary64_def by blast
  qed
  from this [of x] this [of "- x"] show ?thesis by auto
qed

lemma binary64_gt_threshold:
  assumes "is_binary64 x"
  shows "(lit_0_3 < x) = (3 / 10 < x)"
  using binary64_above_lit_0_3 [OF assms] by (auto simp: lit_0_3_def)

lemma binary64_lt_threshold:
  assumes "is_binary64 x"
  shows "(x < - lit_0_3) = (x < - (3 / 10))"
proof -
  from assms have "is_binary64 (- x)" by (simp add: is_binary64_uminus)
  from binary64_gt_threshold [OF this] show ?thesis by auto
qed

lemma is_binary64_I:
  "\<bar>m\<bar> < 2 ^ 53 \<Longrightarrow> e \<le> 2045 \<Longrightarrow> x = of_int m * 2 ^ e / 2 ^ 1074 \<Longrightarrow> is_binary64 x"
  unfolding is_binary64_def by blast

lemma is_binary64_lit_0_3: "is_binary64 lit_0_3"
  by (rule is_binary64_I [of 5404319552844595 1020]) (simp_all add: lit_0_3_def)

lemma is_binary64_lit_0_31: "is_binary64 lit_0_31"
  by (rule is_binary64_I [of 5584463537939415 1020]) (simp_all add: lit_0_31_def)

lemma is_binary64_lit_0_9: "is_binary64 lit_0_9"
  by (rule is_binary64_I [of 8106479329266893 1021]) (simp_all add: lit_0_9_def)

lemma is_binary64_lit_0_45: "is_binary64 lit_0_45"
  by (rule is_binary64_I [of 8106479329266893 1020]) (simp_all add: lit_0_45_def)

lemma is_binary64_0: "is_binary64 0"
  by (rule is_binary64_I [of 0 0]) simp_all

section \<open>The decision rule: thresholds and purity\<close>

text \<open>
  C1. On every float (a finite binary64 value, an infinity or NaN) the decision rule of
  the source returns what the specification's rule returns: BUY exactly when the
  sentiment is strictly greater than 0.3, SELL exactly when it is strictly less than
  -0.3, and HOLD otherwise. The witness evaluates it at the floats 0.31, -0.31, 0.0,
  0.3 and -0.3, at NaN and at the infinities.
\<close>

theorem make_decision_rule:
  assumes "is_float sentiment"
  shows "make_decision sentiment price = decision_rule_spec sentiment"
proof (cases sentiment)
  case (Fin x)
  with assms have "is_binary64 x" by simp
  from binary64_gt_threshold [OF this] binary64_lt_threshold [OF this] Fin
  show ?thesis by (simp add: make_decision_def decision_rule_spec_def)
qed (simp_all add: make_decision_def decision_rule_spec_def)

theorem make_decision_rule_witness:
  "is_float (Fin lit_0_31) \<and> make_decision (Fin lit_0_31) (PyFloat (Fin lit_0_45)) = ''BUY'' \<and>
   is_float (Fin (- lit_0_31)) \<and> make_decision (Fin (- lit_0_31)) (PyFloat (Fin lit_0_45)) = ''SELL'' \<and>
   is_float (Fin 0) \<and> make_decision (Fin 0) (PyFloat (Fin lit_0_45)) = ''HOLD'' \<and>
   is_float (Fin lit_0_3) \<and> make_decision (Fin lit_0_3) (PyFloat (Fin lit_0_45)) = ''HOLD'' \<and>
   is_float (Fin (- lit_0_3)) \<and> make_decision (Fin (- lit_0_3)) (PyFloat (Fin lit_0_45)) = ''HOLD'' \<and>
   is_float NaN \<and> make_decision NaN (PyFloat (Fin lit_0_45)) = ''HOLD'' \<and>
   is_float PInf \<and> make_decision PInf (PyFloat (Fin lit_0_45)) = ''BUY'' \<and>
   is_float NInf \<and> make_decision NInf (PyFloat (Fin lit_0_45)) = ''SELL''"
proof -
  have f: "is_float (Fin lit_0_31)" "is_float (Fin (- lit_0_31))" "is_float (Fin 0)"
    "is_float (Fin lit_0_3)" "is_float (Fin (- lit_0_3))" "is_float NaN" "is_float PInf"
    "is_float NInf"
    by (simp_all add: is_binary64_uminus is_binary64_lit_0_31 is_binary64_lit_0_3 is_binary64_0)
  have d: "decision_rule_spec (Fin lit_0_31) = ''BUY''"
    "decision_rule_spec (Fin (- lit_0_31)) = ''SELL''"
    "decision_rule_spec (Fin 0) = ''HOLD''"
    "decision_rule_spec (Fin lit_0_3) = ''HOLD''"
    "decision_rule_spec (Fin (- lit_0_3)) = ''HOLD''"
    "decision_rule_spec NaN = ''HOLD''"
    "decision_rule_spec PInf = ''BUY''"
    "decision_rule_spec NInf = ''SELL''"
    by (simp_all add: decision_rule_spec_def lit_0_31_def lit_0_3_def)
  show ?thesis
    using f d f [THEN make_decision_rule, of "PyFloat (Fin lit_0_45)"] by simp
qed

text \<open>
  C6. The decision does not depend on the price argument: two calls with the same
  sentiment and any two prices return the same decision, and the decision is one of the
  three strings BUY, SELL and HOLD.
\<close>

theorem make_decision_ignores_price:
  "make_decision sentiment price1 = make_decision sentiment price2 \<and>
   make_decision sentiment price \<in> {''BUY'', ''SELL'', ''HOLD''}"
  by (simp add: make_decision_def)

section \<open>The sentiment scorer\<close>

text \<open>
  C3. For a classifier result whose label is POSITIVE or NEGATIVE and whose confidence
  \<open>c\<close> lies between 0 and 1, the signed scalar is \<open>c\<close> for POSITIVE and \<open>- c\<close> for
  NEGATIVE: it is not negative for POSITIVE and not positive for NEGATIVE, strictly of
  the label's sign when \<open>c\<close> is not zero, and its absolute value is \<open>c\<close>.
\<close>

theorem numeric_score_signed:
  assumes "label result \<in> {''POSITIVE'', ''NEGATIVE''}"
    and "score result = Fin c"
    and "0 \<le> c" and "c \<le> 1"
  shows "\<exists>x. numeric_score result = Fin x \<and>
           (label result = ''POSITIVE'' \<longrightarrow> x = c \<and> 0 \<le> x) \<and>
           (label result = ''NEGATIVE'' \<longrightarrow> x = - c \<and> x \<le> 0) \<and>
           (0 < c \<longrightarrow> (0 < x) = (label result = ''POSITIVE'') \<and>
                      (x < 0) = (label result = ''NEGATIVE'')) \<and>
           \<bar>x\<bar> = c"
  using assms by (auto simp: numeric_score_def)

theorem numeric_score_signed_witness:
  "label \<lparr>label = ''NEGATIVE'', score = Fin lit_0_9\<rparr> \<in> {''POSITIVE'', ''NEGATIVE''} \<and>
   score \<lparr>label = ''NEGATIVE'', score = Fin lit_0_9\<rparr> = Fin lit_0_9 \<and>
   0 \<le> lit_0_9 \<and> lit_0_9 \<le> 1 \<and>
   numeric_score \<lparr>label = ''NEGATIVE'', score = Fin lit_0_9\<rparr> = Fin (- lit_0_9) \<and>
   label \<lparr>label = ''POSITIVE'', score = Fin lit_0_9\<rparr> \<in> {''POSITIVE'', ''NEGATIVE''} \<and>
   score \<lparr>label = ''POSITIVE'', score = Fin lit_0_9\<rparr> = Fin lit_0_9 \<and>
   numeric_score \<lparr>label = ''POSITIVE'', score = Fin lit_0_9\<rparr> = Fin lit_0_9"
proof -
  have 1: "label \<lparr>label = ''NEGATIVE'', score = Fin lit_0_9\<rparr> \<in> {''POSITIVE'', ''NEGATIVE''}"
    and 2: "score \<lparr>label = ''NEGATIVE'', score = Fin lit_0_9\<rparr> = Fin lit_0_9"
    and 3: "0 \<le> lit_0_9" and 4: "lit_0_9 \<le> 1"
    and 5: "label \<lparr>label = ''POSITIVE'', score = Fin lit_0_9\<rparr> \<in> {''POSITIVE'', ''NEGATIVE''}"
    and 6: "score \<lparr>label = ''POSITIVE'', score = Fin lit_0_9\<rparr> = Fin lit_0_9"
    by (simp_all add: lit_0_9_def)
  show ?thesis
    using 1 2 3 4 5 6 numeric_score_signed [OF 1 2 3 4] numeric_score_signed [OF 5 6 3 4]
    by auto
qed

text \<open>
  The loop: when the pipeline classifies every headline, the loop returns the scores it
  was given followed by the signed scalars of the results, in order; and it returns
  only then.
\<close>

lemma score_loop_results:
  "map sentiment_pipeline headlines = map Inr results \<Longrightarrow>
   score_loop sentiment_pipeline headlines scores = Inr (scores @ map numeric_score results)"
proof (induction headlines arbitrary: results scores)
  case Nil
  then show ?case by simp
next
  case (Cons h hs)
  then obtain r rs where "results = r # rs" "sentiment_pipeline h = Inr r"
    "map sentiment_pipeline hs = map Inr rs"
    by (cases results) auto
  with Cons.IH [of rs "scores @ [numeric_score r]"] show ?case by simp
qed

lemma score_loop_returns:
  "score_loop sentiment_pipeline headlines scores = Inr scores' \<Longrightarrow>
   \<exists>results. map sentiment_pipeline headlines = map Inr results \<and>
     scores' = scores @ map numeric_score results"
proof (induction headlines arbitrary: scores)
  case Nil
  then show ?case by simp
next
  case (Cons h hs)
  then obtain r where r: "sentiment_pipeline h = Inr r"
    and "score_loop sentiment_pipeline hs (scores @ [numeric_score r]) = Inr scores'"
    by (auto split: sum.splits)
  from Cons.IH [OF this(2)] obtain rs where "map sentiment_pipeline hs = map Inr rs"
    "scores' = (scores @ [numeric_score r]) @ map numeric_score rs" by blast
  with r have "map sentiment_pipeline (h # hs) = map Inr (r # rs) \<and>
     scores' = scores @ map numeric_score (r # rs)" by simp
  then show ?case by blast
qed

lemma analyze_sentiment_np_mean:
  "map sentiment_pipeline headlines = map Inr results \<Longrightarrow>
   analyze_sentiment (Inr sentiment_pipeline) headlines = Inr (np_mean (map numeric_score results))"
  by (simp add: analyze_sentiment_def score_loop_results)

lemma analyze_sentiment_returns_iff:
  "analyze_sentiment (Inr sentiment_pipeline) headlines = Inr v \<longleftrightarrow>
   (\<exists>results. map sentiment_pipeline headlines = map Inr results \<and>
      v = np_mean (map numeric_score results))"
proof
  assume "analyze_sentiment (Inr sentiment_pipeline) headlines = Inr v"
  then obtain scores where "score_loop sentiment_pipeline headlines [] = Inr scores"
    "v = np_mean scores"
    by (auto simp: analyze_sentiment_def split: sum.splits)
  with score_loop_returns [of sentiment_pipeline headlines "[]" scores]
  show "\<exists>results. map sentiment_pipeline headlines = map Inr results \<and>
      v = np_mean (map numeric_score results)" by auto
next
  assume "\<exists>results. map sentiment_pipeline headlines = map Inr results \<and>
      v = np_mean (map numeric_score results)"
  then show "analyze_sentiment (Inr sentiment_pipeline) headlines = Inr v"
    by (auto simp: analyze_sentiment_np_mean)
qed

lemma analyze_sentiment_pipeline_raises:
  "analyze_sentiment (Inl e) headlines = Inl e"
  by (simp add: analyze_sentiment_def)













section \<open>The driver\<close>


text \<open>A run whose price fetch succeeds and whose scorer raises: no decision is made.\<close>

lemma run_agentic_ai_scorer_raises:
  assumes "fetch_ada_price requests_get = (price, printed)" and "price \<noteq> PyNone"
    and "analyze_sentiment pipeline fetch_news_headlines = Inl e"
  shows "decided (run_agentic_ai requests_get pipeline) = None \<and>
         raised (run_agentic_ai requests_get pipeline) = Some e \<and>
         calls (run_agentic_ai requests_get pipeline) =
           [Call_fetch_ada_price, Call_fetch_news_headlines, Call_analyze_sentiment]"
  using assms by (simp add: run_agentic_ai_def print_def enter_def Let_def)

text \<open>
  C4. In a run whose price fetcher returns \<^verbatim>\<open>None\<close>, the driver returns after calling
  the price fetcher only: it calls neither the headline source nor the scorer nor the
  decision rule, makes no decision, raises nothing, and prints the banner, what the
  fetcher printed and the failure message. The run is the same whatever the pipeline.
\<close>

theorem run_aborts_on_price_failure:
  assumes "fst (fetch_ada_price requests_get) = PyNone"
  shows "calls (run_agentic_ai requests_get pipeline) = [Call_fetch_ada_price] \<and>
         decided (run_agentic_ai requests_get pipeline) = None \<and>
         raised (run_agentic_ai requests_get pipeline) = None \<and>
         stdout (run_agentic_ai requests_get pipeline) =
           [Text ''=== Fetching ADA Price ===''] @ snd (fetch_ada_price requests_get) @
           [Text ''Could not fetch price. Exiting.''] \<and>
         run_agentic_ai requests_get pipeline = run_agentic_ai requests_get pipeline'"
  using assms
  by (cases "fetch_ada_price requests_get") (simp add: run_agentic_ai_def print_def enter_def)

theorem run_aborts_on_price_failure_witness:
  "fst (fetch_ada_price (Inl RequestException)) = PyNone \<and>
   run_agentic_ai (Inl RequestException) (Inr always_positive) =
     \<lparr>stdout = [Text ''=== Fetching ADA Price ==='', Error_fetching RequestException,
                Text ''Could not fetch price. Exiting.''],
      calls = [Call_fetch_ada_price], decided = None, raised = None\<rparr> \<and>
   run_agentic_ai (Inl RequestException) (Inr always_positive) =
     run_agentic_ai (Inl RequestException) (Inl (OtherException ''model not found''))"
proof -
  have 1: "fst (fetch_ada_price (Inl RequestException)) = PyNone"
    by (simp add: fetch_ada_price_def fetch_ada_price_try_def)
  have 2: "snd (fetch_ada_price (Inl RequestException)) = [Error_fetching RequestException]"
    by (simp add: fetch_ada_price_def fetch_ada_price_try_def)
  show ?thesis
    using 1 2 run_aborts_on_price_failure [OF 1, of "Inr always_positive"
        "Inl (OtherException ''model not found'')"]
    by (cases "run_agentic_ai (Inl RequestException) (Inr always_positive)") simp
qed







section \<open>The price fetcher\<close>

text \<open>
  C5, as the specification states it, fails: the fetcher returns the quoted value as it
  is. On a response that quotes the string \<^verbatim>\<open>"n/a"\<close> it returns that string, and on one
  that quotes \<open>-1.0\<close> it returns \<open>-1.0\<close>; neither is a positive float or \<^verbatim>\<open>None\<close>.
\<close>

theorem fetch_ada_price_not_validated_counterexample:
  "\<not> positive_float_or_failure (fst (fetch_ada_price (quote_response (PyStr ''n/a'')))) \<and>
   \<not> positive_float_or_failure (fst (fetch_ada_price (quote_response (PyFloat (Fin (- 1))))))"
  by (simp add: fetch_ada_price_def fetch_ada_price_try_def quote_response_def)

text \<open>
  C5, amended. Whatever the outcome of the request, the fetcher raises nothing. Either
  the response has no value at \<^verbatim>\<open>data["cardano"]["usd"]\<close> (the request raised, the body
  is not JSON, a key is missing or a value on the way is not a dictionary), and then the
  fetcher prints the exception and returns \<^verbatim>\<open>None\<close>; or it has one, and then the fetcher
  prints nothing and returns that value unchanged, whatever it is.
\<close>

theorem fetch_ada_price_outcomes:
  "(quoted_price requests_get = None \<and>
      (\<exists>e. fetch_ada_price requests_get = (PyNone, [Error_fetching e]))) \<or>
   (\<exists>v. quoted_price requests_get = Some v \<and> fetch_ada_price requests_get = (v, []))"
proof (cases requests_get)
  case (Inl e)
  then show ?thesis by (simp add: fetch_ada_price_def fetch_ada_price_try_def)
next
  case (Inr response)
  then obtain j where j: "requests_get = Inr (Response j)" by (cases response) simp
  show ?thesis
  proof (cases j)
    case (Inl e)
    with j show ?thesis by (simp add: fetch_ada_price_def fetch_ada_price_try_def)
  next
    case (Inr data)
    with j show ?thesis
      by (cases data)
        (auto simp: fetch_ada_price_def fetch_ada_price_try_def
           split: option.splits pyval.splits)
  qed
qed

section \<open>The headline source\<close>

text \<open>
  C9. The headline source is a constant: it returns the same five strings, in the same
  order, on every call.
\<close>

theorem fetch_news_headlines_fixed:
  "length fetch_news_headlines = 5 \<and>
   fetch_news_headlines ! 0 = ''Cardano Surges After Positive Development Updates'' \<and>
   fetch_news_headlines ! 1 = ''Experts Warn Of Possible Correction in Cardano'' \<and>
   fetch_news_headlines ! 2 = ''Major Financial Institution to Begin Holding ADA Reserves'' \<and>
   fetch_news_headlines ! 3 = ''Bearish Signals Emerge Despite Cardano's Strong Performance'' \<and>
   fetch_news_headlines ! 4 = ''Investors Show Growing Interest in Cardano's Future''"
  by (simp add: fetch_news_headlines_def)

end
